theory Spec2Isabelle
  imports Main
begin

section \<open>Data model (types.ts)\<close>

text \<open>
  The string unions of types.ts become datatypes, the interfaces become records.
  JavaScript numbers used as ids are integers handed out by one counter
  (\<open>nextId.current++\<close>); they are modelled as \<open>int\<close> (the prompt id \<open>-1\<close> of
  vector mode is negative). The counter is a double-precision number: it counts up
  exactly as far as \<open>2^53\<close> and stays there (\<open>postIncrement\<close> below).
  The field \<open>id\<close> of each interface is suffixed with the interface it belongs to,
  \<open>text\<close> and \<open>title\<close> of a prompt likewise. The \<open>file\<close> handle of an uploaded
  image is opaque and never read by the scheduler, so it is left out.
\<close>

datatype Mode = Vector | Matrix

datatype OutputStatus = Pending | Generating | Complete | Error

record UploadedImage =
  id_image :: int
  base64Data :: string

record Prompt =
  id_prompt :: int
  title_prompt :: string
  text_prompt :: string

record Output =
  id_output :: int
  sourceImageId :: int
  promptId :: int
  imageUrl :: "string option"
  status :: OutputStatus
  error :: "string option"

section \<open>Component state (App)\<close>

text \<open>
  The \<open>useState\<close> cells and the two \<open>useRef\<close> cells of the component. The
  \<open>Set<number>\<close> held by \<open>processingIds\<close> is a list without repetitions in
  insertion order, as a JavaScript \<open>Set\<close> is.
\<close>

record AppState =
  currentMode :: Mode
  uploadedImages :: "UploadedImage list"
  prompts :: "Prompt list"
  vectorPrompt :: string
  outputs :: "Output list"
  isGenerating :: bool
  nextId :: int
  processingIds :: "int list"

definition API_CONCURRENCY_LIMIT :: int where
  "API_CONCURRENCY_LIMIT = 2"

definition initialState :: AppState where
  "initialState =
     \<lparr> currentMode = Vector, uploadedImages = [], prompts = [], vectorPrompt = [],
       outputs = [], isGenerating = False, nextId = 0, processingIds = [] \<rparr>"

subsection \<open>Library operations of the host language\<close>

text \<open>\<open>Set.prototype.has\<close>, \<open>add\<close>, \<open>delete\<close>, \<open>size\<close> and \<open>clear\<close>.\<close>

definition set_has :: "int list \<Rightarrow> int \<Rightarrow> bool" where
  "set_has xs x = (x \<in> set xs)"

definition set_add :: "int list \<Rightarrow> int \<Rightarrow> int list" where
  "set_add xs x = (if set_has xs x then xs else xs @ [x])"

definition set_delete :: "int list \<Rightarrow> int \<Rightarrow> int list" where
  "set_delete xs x = removeAll x xs"

definition set_size :: "int list \<Rightarrow> int" where
  "set_size xs = int (length xs)"

definition set_clear :: "int list \<Rightarrow> int list" where
  "set_clear xs = []"

text \<open>
  \<open>Array.prototype.slice(0, end)\<close>: a negative \<open>end\<close> counts from the end of the
  array, a non-negative one is capped by the length.
\<close>

definition slice0 :: "'a list \<Rightarrow> int \<Rightarrow> 'a list" where
  "slice0 xs e =
     (let len = int (length xs);
          final = (if e < 0 then max (len + e) 0 else min e len)
      in take (nat final) xs)"

text \<open>
  The value of a counter after \<open>counter++\<close>. In double precision \<open>n + 1\<close> is exact
  for every integer \<open>n\<close> from \<open>-2^53\<close> up to \<open>2^53 - 1\<close>, and \<open>2^53 + 1\<close> is
  rounded back to \<open>2^53\<close>. The counter \<open>nextId\<close> starts at 0 and is only ever
  incremented, so these are all the values it takes.
\<close>

definition counterLimit :: int where
  "counterLimit = 9007199254740992"

definition postIncrement :: "int \<Rightarrow> int" where
  "postIncrement n = (if n < counterLimit then n + 1 else n)"

text \<open>
  \<open>String.prototype.trim\<close> on strings of 8-bit characters: tab, line feed, vertical
  tab, form feed, carriage return, space and the no-break space are white space.
\<close>

definition isWhiteSpace :: "char \<Rightarrow> bool" where
  "isWhiteSpace c =
     (c \<in> set [CHR 0x09, CHR 0x0A, CHR 0x0B, CHR 0x0C, CHR 0x0D, CHR 0x20, CHR 0xA0])"

definition trim :: "string \<Rightarrow> string" where
  "trim t = rev (dropWhile isWhiteSpace (rev (dropWhile isWhiteSpace t)))"

section \<open>handleGenerate\<close>

text \<open>
  The two nested \<open>for ... of\<close> loops, threading the counter \<open>nextId.current\<close> and
  the array \<open>newOutputs\<close> that is pushed to.
\<close>

definition newOutput :: "int \<Rightarrow> UploadedImage \<Rightarrow> Prompt \<Rightarrow> Output" where
  "newOutput n img prompt =
     \<lparr> id_output = n, sourceImageId = id_image img, promptId = id_prompt prompt,
       imageUrl = None, status = Pending, error = None \<rparr>"

fun pushPrompts :: "UploadedImage \<Rightarrow> Prompt list \<Rightarrow> int \<times> Output list \<Rightarrow> int \<times> Output list" where
  "pushPrompts img [] (n, acc) = (n, acc)"
| "pushPrompts img (p # ps) (n, acc) =
     pushPrompts img ps (postIncrement n, acc @ [newOutput n img p])"

fun pushImages :: "UploadedImage list \<Rightarrow> Prompt list \<Rightarrow> int \<times> Output list \<Rightarrow> int \<times> Output list" where
  "pushImages [] ps st = st"
| "pushImages (img # images) ps st = pushImages images ps (pushPrompts img ps st)"

definition promptsToUse :: "AppState \<Rightarrow> Prompt list" where
  "promptsToUse s =
     (if currentMode s = Vector
      then [\<lparr> id_prompt = - 1, title_prompt = ''Vector'', text_prompt = vectorPrompt s \<rparr>]
      else prompts s)"

text \<open>
  The handler returns the message passed to \<open>alert\<close>, if any, beside the new state.
\<close>

definition handleGenerate :: "AppState \<Rightarrow> string option \<times> AppState" where
  "handleGenerate s =
     (if isGenerating s \<or> length (uploadedImages s) = 0 then (None, s)
      else
        let isVectorReady = (currentMode s = Vector \<and> trim (vectorPrompt s) \<noteq> []);
            isMatrixReady = (currentMode s = Matrix \<and> length (prompts s) > 0)
        in if \<not> isVectorReady \<and> \<not> isMatrixReady
           then (Some ''Please add at least one image and one prompt.'', s)
           else
             let r = pushImages (uploadedImages s) (promptsToUse s) (nextId s, [])
             in (None, s\<lparr> outputs := snd r, isGenerating := True, nextId := fst r \<rparr>))"

section \<open>handleCancel\<close>

definition handleCancel :: "AppState \<Rightarrow> AppState" where
  "handleCancel s =
     s\<lparr> isGenerating := False,
        outputs := map (\<lambda>out. if status out = Pending \<or> status out = Generating
                             then out\<lparr> status := Error, error := Some ''Cancelled by user.'' \<rparr>
                             else out) (outputs s),
        processingIds := set_clear (processingIds s) \<rparr>"

section \<open>The scheduler effect\<close>

definition pendingOutputs :: "AppState \<Rightarrow> Output list" where
  "pendingOutputs s =
     filter (\<lambda>out. status out = Pending \<and> \<not> set_has (processingIds s) (id_output out)) (outputs s)"

definition availableSlots :: "AppState \<Rightarrow> int" where
  "availableSlots s = API_CONCURRENCY_LIMIT - set_size (processingIds s)"

definition itemsToProcess :: "AppState \<Rightarrow> Output list" where
  "itemsToProcess s = slice0 (pendingOutputs s) (availableSlots s)"

definition hasPending :: "AppState \<Rightarrow> bool" where
  "hasPending s = list_ex (\<lambda>out. status out = Pending) (outputs s)"

text \<open>
  \<open>runGeneration\<close> up to its first \<open>await\<close> runs inside the \<open>forEach\<close> callback:
  it resolves the image and the prompt text and, when one is missing, marks the job
  and frees its slot at once. Otherwise the external call is outstanding and settles
  later (\<open>settle\<close> below).
\<close>

definition promptTextOf :: "AppState \<Rightarrow> Output \<Rightarrow> string" where
  "promptTextOf s outputToProcess =
     (if currentMode s = Vector then vectorPrompt s
      else (case find (\<lambda>p. id_prompt p = promptId outputToProcess) (prompts s) of
              None \<Rightarrow> []
            | Some p \<Rightarrow> text_prompt p))"

definition dispatch :: "Output \<Rightarrow> AppState \<Rightarrow> AppState" where
  "dispatch outputToProcess s =
     (let s1 = s\<lparr> processingIds := set_add (processingIds s) (id_output outputToProcess),
                  outputs := map (\<lambda>out. if id_output out = id_output outputToProcess
                                       then out\<lparr> status := Generating \<rparr> else out) (outputs s) \<rparr>;
          sourceImage = find (\<lambda>i. id_image i = sourceImageId outputToProcess) (uploadedImages s);
          promptText = promptTextOf s outputToProcess
      in if sourceImage = None \<or> promptText = []
         then s1\<lparr> outputs := map (\<lambda>out. if id_output out = id_output outputToProcess
                                       then out\<lparr> status := Error,
                                               error := Some ''Missing image or prompt.'' \<rparr>
                                       else out) (outputs s1),
                  processingIds := set_delete (processingIds s1) (id_output outputToProcess) \<rparr>
         else s1)"

definition dispatchAll :: "Output list \<Rightarrow> AppState \<Rightarrow> AppState" where
  "dispatchAll items s = foldl (\<lambda>st outputToProcess. dispatch outputToProcess st) s items"

definition schedulerEffect :: "AppState \<Rightarrow> AppState" where
  "schedulerEffect s =
     (if \<not> isGenerating s then s
      else if length (itemsToProcess s) = 0 \<and> set_size (processingIds s) = 0
      then (if \<not> hasPending s then s\<lparr> isGenerating := False \<rparr> else s)
      else dispatchAll (itemsToProcess s) s)"

text \<open>
  Settlement of the external call dispatched for job \<open>j\<close>: the \<open>try\<close> branch after
  the \<open>await\<close> (the call resolved with an image URL), or the \<open>catch\<close> branch (it
  rejected with an error message), followed by the \<open>finally\<close> block.
\<close>

datatype Settlement = Resolved string | Rejected string

fun settle :: "int \<Rightarrow> Settlement \<Rightarrow> AppState \<Rightarrow> AppState" where
  "settle j (Resolved url) s =
     s\<lparr> outputs := map (\<lambda>out. if id_output out = j \<and> status out = Generating
                             then out\<lparr> status := Complete, imageUrl := Some url, error := None \<rparr>
                             else out) (outputs s),
        processingIds := set_delete (processingIds s) j \<rparr>"
| "settle j (Rejected message) s =
     s\<lparr> outputs := map (\<lambda>out. if id_output out = j
                             then out\<lparr> status := Error, error := Some message \<rparr>
                             else out) (outputs s),
        processingIds := set_delete (processingIds s) j \<rparr>"

section \<open>The remaining handlers\<close>

definition handleFileLoaded :: "string \<Rightarrow> AppState \<Rightarrow> AppState" where
  "handleFileLoaded data s =
     s\<lparr> uploadedImages := uploadedImages s @ [\<lparr> id_image = nextId s, base64Data = data \<rparr>],
        nextId := postIncrement (nextId s) \<rparr>"

definition handleClearUploads :: "AppState \<Rightarrow> AppState" where
  "handleClearUploads s = s\<lparr> uploadedImages := [], outputs := [] \<rparr>"

definition handleRemoveUpload :: "int \<Rightarrow> AppState \<Rightarrow> AppState" where
  "handleRemoveUpload i s =
     s\<lparr> uploadedImages := filter (\<lambda>img. id_image img \<noteq> i) (uploadedImages s) \<rparr>"

definition handleAddPrompt :: "string \<Rightarrow> string \<Rightarrow> AppState \<Rightarrow> AppState" where
  "handleAddPrompt title txt s =
     s\<lparr> prompts := prompts s @ [\<lparr> id_prompt = nextId s, title_prompt = title,
                                  text_prompt = txt \<rparr>],
        nextId := postIncrement (nextId s) \<rparr>"

definition handleRemovePrompt :: "int \<Rightarrow> AppState \<Rightarrow> AppState" where
  "handleRemovePrompt i s = s\<lparr> prompts := filter (\<lambda>p. id_prompt p \<noteq> i) (prompts s) \<rparr>"

definition handleRegenerate :: "int \<Rightarrow> AppState \<Rightarrow> AppState" where
  "handleRegenerate i s =
     (let s1 = s\<lparr> outputs := map (\<lambda>out. if id_output out = i
                                       then out\<lparr> status := Pending, imageUrl := None, error := None \<rparr>
                                       else out) (outputs s) \<rparr>
      in if \<not> isGenerating s then s1\<lparr> isGenerating := True \<rparr> else s1)"

definition handleModeChange :: "Mode \<Rightarrow> AppState \<Rightarrow> AppState" where
  "handleModeChange mode s = s\<lparr> currentMode := mode, outputs := [] \<rparr>"

definition setVectorPrompt :: "string \<Rightarrow> AppState \<Rightarrow> AppState" where
  "setVectorPrompt t s = s\<lparr> vectorPrompt := t \<rparr>"

section \<open>Runs of the component\<close>

text \<open>
  One event is one handler invocation, one run of the scheduler effect, or one
  settlement of an external call. Handlers, the effect and the continuations after an
  \<open>await\<close> run to completion one at a time on the single JavaScript thread, and every
  \<open>setOutputs\<close> uses an updater applied to the latest state, so each event is a state
  transformer. A settlement may name any job id: the relation then contains every run
  of the program (where only dispatched calls settle), which is what an invariant
  needs.
\<close>

datatype Event =
    Generate
  | Cancel
  | SchedulerRun
  | Settle int Settlement
  | Regenerate int
  | ModeChange Mode
  | FileLoaded string
  | ClearUploads
  | RemoveUpload int
  | AddPrompt string string
  | RemovePrompt int
  | VectorPromptChange string

fun step :: "Event \<Rightarrow> AppState \<Rightarrow> AppState" where
  "step Generate s = snd (handleGenerate s)"
| "step Cancel s = handleCancel s"
| "step SchedulerRun s = schedulerEffect s"
| "step (Settle j r) s = settle j r s"
| "step (Regenerate j) s = handleRegenerate j s"
| "step (ModeChange m) s = handleModeChange m s"
| "step (FileLoaded d) s = handleFileLoaded d s"
| "step ClearUploads s = handleClearUploads s"
| "step (RemoveUpload i) s = handleRemoveUpload i s"
| "step (AddPrompt t x) s = handleAddPrompt t x s"
| "step (RemovePrompt i) s = handleRemovePrompt i s"
| "step (VectorPromptChange t) s = setVectorPrompt t s"

inductive reachable :: "AppState \<Rightarrow> bool" where
  reachable_init: "reachable initialState"
| reachable_step: "reachable s \<Longrightarrow> reachable (step e s)"

definition run :: "Event list \<Rightarrow> AppState" where
  "run es = foldl (\<lambda>s e. step e s) initialState es"

section \<open>The job matrix\<close>

text \<open>
  What the loops of \<open>handleGenerate\<close> push, written without the accumulator: one
  job per (image, prompt) pair, outer loop over the images, inner loop over the
  prompts, each id the value of the counter when the job is created.
\<close>

fun jobRow :: "int \<Rightarrow> UploadedImage \<Rightarrow> Prompt list \<Rightarrow> Output list" where
  "jobRow n img [] = []"
| "jobRow n img (p # ps) = newOutput n img p # jobRow (postIncrement n) img ps"

fun jobMatrix :: "int \<Rightarrow> UploadedImage list \<Rightarrow> Prompt list \<Rightarrow> Output list" where
  "jobMatrix n [] ps = []"
| "jobMatrix n (img # images) ps =
     jobRow n img ps @ jobMatrix ((postIncrement ^^ length ps) n) images ps"

section \<open>What dispatching one job does to it\<close>



section \<open>Invariant of the job set\<close>

text \<open>
  A job that is \<open>Pending\<close> carries neither a result nor an error message.
\<close>

definition pendingFresh :: "Output list \<Rightarrow> bool" where
  "pendingFresh xs =
     list_all (\<lambda>out. status out = Pending \<longrightarrow> imageUrl out = None \<and> error out = None) xs"

section \<open>Example runs\<close>

text \<open>
  Three images are uploaded in vector mode, generation is started and the scheduler
  effect runs once: the first two jobs are dispatched, the third waits.
\<close>

definition exampleEvents :: "Event list" where
  "exampleEvents =
     [FileLoaded ''a'', FileLoaded ''b'', FileLoaded ''c'', VectorPromptChange ''blue'',
      Generate, SchedulerRun]"

definition exampleJob :: "int \<Rightarrow> int \<Rightarrow> OutputStatus \<Rightarrow> string option \<Rightarrow> string option \<Rightarrow> Output" where
  "exampleJob n i st url err =
     \<lparr> id_output = n, sourceImageId = i, promptId = - 1, imageUrl = url, status = st, error = err \<rparr>"

definition exampleState :: AppState where
  "exampleState =
     \<lparr> currentMode = Vector,
       uploadedImages = [\<lparr> id_image = 0, base64Data = ''a'' \<rparr>, \<lparr> id_image = 1, base64Data = ''b'' \<rparr>,
                         \<lparr> id_image = 2, base64Data = ''c'' \<rparr>],
       prompts = [], vectorPrompt = ''blue'',
       outputs = [exampleJob 3 0 Generating None None, exampleJob 4 1 Generating None None,
                  exampleJob 5 2 Pending None None],
       isGenerating = True, nextId = 6, processingIds = [3, 4] \<rparr>"

text \<open>
  A job set holding one job of every status, with generation stopped, and a job set
  whose jobs have all settled while the flag is still on.
\<close>

definition mixedState :: AppState where
  "mixedState =
     exampleState
       \<lparr> outputs := [exampleJob 3 0 Pending None None, exampleJob 4 1 Generating None None,
                     exampleJob 5 2 Complete (Some ''url'') None,
                     exampleJob 6 2 Error None (Some ''quota'')],
         processingIds := [4], isGenerating := False \<rparr>"

definition drainedState :: AppState where
  "drainedState =
     exampleState
       \<lparr> outputs := [exampleJob 3 0 Complete (Some ''url'') None,
                     exampleJob 4 1 Error None (Some ''quota'')],
         processingIds := [] \<rparr>"

text \<open>
  The example run before the scheduler effect has run: three jobs wait.
\<close>

definition startedEvents :: "Event list" where
  "startedEvents =
     [FileLoaded ''a'', FileLoaded ''b'', FileLoaded ''c'', VectorPromptChange ''blue'', Generate]"

definition startedState :: AppState where
  "startedState =
     exampleState
       \<lparr> outputs := [exampleJob 3 0 Pending None None, exampleJob 4 1 Pending None None,
                     exampleJob 5 2 Pending None None],
         processingIds := [] \<rparr>"

text \<open>
  Matrix mode with two images and three prompts, an old job set of one finished job,
  and the job records a build creates.
\<close>

definition matrixState :: AppState where
  "matrixState =
     \<lparr> currentMode = Matrix,
       uploadedImages = [\<lparr> id_image = 0, base64Data = ''a'' \<rparr>, \<lparr> id_image = 1, base64Data = ''b'' \<rparr>],
       prompts = [\<lparr> id_prompt = 2, title_prompt = ''p'', text_prompt = ''blue'' \<rparr>,
                  \<lparr> id_prompt = 3, title_prompt = ''q'', text_prompt = ''red'' \<rparr>,
                  \<lparr> id_prompt = 4, title_prompt = ''r'', text_prompt = ''green'' \<rparr>],
       vectorPrompt = [],
       outputs = [exampleJob 7 0 Complete (Some ''url'') None],
       isGenerating = False, nextId = 8, processingIds = [] \<rparr>"






section \<open>Facts about the library operations and the dispatch loop\<close>

lemma length_set_add: "length (set_add xs x) \<le> Suc (length xs)"
  by (simp add: set_add_def)

lemma length_set_delete: "length (set_delete xs x) \<le> length xs"
  by (simp add: set_delete_def)

lemma slice0_nonneg: "0 \<le> e \<Longrightarrow> slice0 xs e = take (nat e) xs"
  by (simp add: slice0_def Let_def min_def)


lemma dispatch_isGenerating: "isGenerating (dispatch x s) = isGenerating s"
  by (simp add: dispatch_def Let_def)

lemma dispatch_length_processingIds:
  "length (processingIds (dispatch x s)) \<le> Suc (length (processingIds s))"
  using length_set_add [of "processingIds s" "id_output x"]
        length_set_delete [of "set_add (processingIds s) (id_output x)" "id_output x"]
  by (simp add: dispatch_def Let_def)


lemma dispatch_pending:
  "out \<in> set (outputs (dispatch x s)) \<Longrightarrow> status out = Pending \<Longrightarrow> out \<in> set (outputs s)"
  by (auto simp: dispatch_def Let_def split: if_splits)

lemma dispatchAll_Nil: "dispatchAll [] s = s"
  by (simp add: dispatchAll_def)

lemma dispatchAll_Cons: "dispatchAll (x # xs) s = dispatchAll xs (dispatch x s)"
  by (simp add: dispatchAll_def)

lemma dispatchAll_isGenerating: "isGenerating (dispatchAll xs s) = isGenerating s"
  by (induction xs arbitrary: s) (simp_all add: dispatchAll_Nil dispatchAll_Cons dispatch_isGenerating)

lemma dispatchAll_length_processingIds:
  "length (processingIds (dispatchAll xs s)) \<le> length (processingIds s) + length xs"
proof (induction xs arbitrary: s)
  case Nil
  show ?case by (simp add: dispatchAll_Nil)
next
  case (Cons x xs)
  have "length (processingIds (dispatchAll xs (dispatch x s)))
          \<le> length (processingIds (dispatch x s)) + length xs"
    by (rule Cons.IH)
  also have "\<dots> \<le> Suc (length (processingIds s)) + length xs"
    using dispatch_length_processingIds [of x s] by simp
  finally show ?case by (simp add: dispatchAll_Cons)
qed


lemma dispatchAll_pending:
  "out \<in> set (outputs (dispatchAll xs s)) \<Longrightarrow> status out = Pending \<Longrightarrow> out \<in> set (outputs s)"
proof (induction xs arbitrary: s)
  case Nil
  then show ?case by (simp add: dispatchAll_Nil)
next
  case (Cons x xs)
  from Cons.prems(1) have "out \<in> set (outputs (dispatchAll xs (dispatch x s)))"
    by (simp add: dispatchAll_Cons)
  then have "out \<in> set (outputs (dispatch x s))"
    using Cons.prems(2) by (rule Cons.IH)
  then show ?case
    using Cons.prems(2) by (rule dispatch_pending)
qed

lemma length_itemsToProcess:
  assumes "length (processingIds s) \<le> 2"
  shows "int (length (itemsToProcess s)) \<le> availableSlots s"
proof -
  have "0 \<le> availableSlots s"
    using assms by (simp add: availableSlots_def API_CONCURRENCY_LIMIT_def set_size_def)
  then show ?thesis
    by (simp add: itemsToProcess_def slice0_nonneg)
qed

section \<open>The loops of handleGenerate build the job matrix\<close>

lemma funpow_postIncrement:
  "(postIncrement ^^ k) n = (if counterLimit \<le> n then n else min (n + int k) counterLimit)"
  by (induction k) (auto simp: postIncrement_def min_def)

lemma funpow_then: "(f ^^ (a + b)) x = (f ^^ b) ((f ^^ a) x)"
  using funpow_add [of b a f] by (simp add: add.commute)

lemma pushPrompts_jobRow:
  "pushPrompts img ps (n, acc) = ((postIncrement ^^ length ps) n, acc @ jobRow n img ps)"
  by (induction ps arbitrary: n acc) (simp_all add: funpow_swap1)

lemma pushImages_jobMatrix:
  "pushImages images ps (n, acc) =
     ((postIncrement ^^ (length images * length ps)) n, acc @ jobMatrix n images ps)"
  by (induction images arbitrary: n acc) (simp_all add: pushPrompts_jobRow funpow_then)








lemma fresh_jobRow: "out \<in> set (jobRow n img ps) \<Longrightarrow> status out = Pending \<and> imageUrl out = None \<and> error out = None"
  by (induction ps arbitrary: n) (auto simp: newOutput_def)

lemma fresh_jobMatrix:
  "out \<in> set (jobMatrix n images ps) \<Longrightarrow> status out = Pending \<and> imageUrl out = None \<and> error out = None"
  by (induction images arbitrary: n) (auto dest: fresh_jobRow)



lemma handleGenerate_cases:
  "snd (handleGenerate s) = s \<or>
   snd (handleGenerate s) =
     s\<lparr> outputs := jobMatrix (nextId s) (uploadedImages s) (promptsToUse s),
        isGenerating := True,
        nextId := (postIncrement ^^ (length (uploadedImages s) * length (promptsToUse s)))
                    (nextId s) \<rparr>"
  by (simp add: handleGenerate_def Let_def pushImages_jobMatrix)

section \<open>Invariants of every run\<close>

lemma schedulerEffect_cases:
  "schedulerEffect s = s \<or> schedulerEffect s = s\<lparr> isGenerating := False \<rparr> \<or>
   schedulerEffect s = dispatchAll (itemsToProcess s) s"
  by (simp add: schedulerEffect_def)

lemma schedulerEffect_length_processingIds:
  assumes "length (processingIds s) \<le> 2"
  shows "length (processingIds (schedulerEffect s)) \<le> 2"
proof -
  have "length (processingIds (dispatchAll (itemsToProcess s) s)) \<le> 2"
    using dispatchAll_length_processingIds [of "itemsToProcess s" s]
          length_itemsToProcess [OF assms] assms
    by (simp add: availableSlots_def API_CONCURRENCY_LIMIT_def set_size_def)
  then show ?thesis
    using assms schedulerEffect_cases [of s] by auto
qed

lemma step_length_processingIds:
  assumes "length (processingIds s) \<le> 2"
  shows "length (processingIds (step e s)) \<le> 2"
proof (cases e)
  case Generate
  then show ?thesis using assms handleGenerate_cases [of s] by auto
next
  case Cancel
  then show ?thesis by (simp add: handleCancel_def set_clear_def)
next
  case SchedulerRun
  then show ?thesis using schedulerEffect_length_processingIds [OF assms] by simp
next
  case (Settle j r)
  have "length (processingIds (settle j r s)) \<le> length (processingIds s)"
    by (cases r) (simp_all add: length_set_delete)
  with Settle assms show ?thesis by simp
next
  case (Regenerate j)
  then show ?thesis using assms by (simp add: handleRegenerate_def Let_def)
qed (use assms in \<open>simp_all add: handleModeChange_def handleFileLoaded_def handleClearUploads_def
       handleRemoveUpload_def handleAddPrompt_def handleRemovePrompt_def setVectorPrompt_def\<close>)

lemma reachable_length_processingIds: "reachable s \<Longrightarrow> length (processingIds s) \<le> 2"
  by (induction rule: reachable.induct) (simp_all add: initialState_def step_length_processingIds)

lemma dispatch_nextId: "nextId (dispatch x s) = nextId s"
  by (simp add: dispatch_def Let_def)

lemma dispatchAll_nextId: "nextId (dispatchAll xs s) = nextId s"
  by (induction xs arbitrary: s) (simp_all add: dispatchAll_Nil dispatchAll_Cons dispatch_nextId)




lemma dispatchAll_pendingFresh:
  "pendingFresh (outputs s) \<Longrightarrow> pendingFresh (outputs (dispatchAll xs s))"
  unfolding pendingFresh_def list_all_iff using dispatchAll_pending by blast

lemma step_pendingFresh:
  assumes "pendingFresh (outputs s)"
  shows "pendingFresh (outputs (step e s))"
proof (cases e)
  case Generate
  then show ?thesis
    using assms handleGenerate_cases [of s]
    by (auto simp: pendingFresh_def list_all_iff dest: fresh_jobMatrix)
next
  case Cancel
  then show ?thesis using assms by (auto simp: handleCancel_def pendingFresh_def list_all_iff)
next
  case SchedulerRun
  then show ?thesis
    using assms schedulerEffect_cases [of s] dispatchAll_pendingFresh [OF assms, of "itemsToProcess s"]
    by auto
next
  case (Settle j r)
  then show ?thesis using assms by (cases r) (auto simp: pendingFresh_def list_all_iff)
next
  case (Regenerate j)
  then show ?thesis
    using assms by (auto simp: handleRegenerate_def Let_def pendingFresh_def list_all_iff)
qed (use assms in \<open>simp_all add: handleModeChange_def handleFileLoaded_def handleClearUploads_def
       handleRemoveUpload_def handleAddPrompt_def handleRemovePrompt_def setVectorPrompt_def
       pendingFresh_def\<close>)

lemma reachable_pendingFresh: "reachable s \<Longrightarrow> pendingFresh (outputs s)"
  by (induction rule: reachable.induct)
     (simp_all add: initialState_def step_pendingFresh, simp add: pendingFresh_def)

section \<open>Evaluation of the example runs\<close>

lemmas handler_defs =
  handleGenerate_def handleCancel_def schedulerEffect_def dispatchAll_def dispatch_def
  handleRegenerate_def handleModeChange_def handleFileLoaded_def handleClearUploads_def
  handleRemoveUpload_def handleAddPrompt_def handleRemovePrompt_def setVectorPrompt_def
  promptsToUse_def promptTextOf_def itemsToProcess_def pendingOutputs_def availableSlots_def
  hasPending_def slice0_def trim_def isWhiteSpace_def set_has_def set_add_def set_delete_def
  set_size_def set_clear_def API_CONCURRENCY_LIMIT_def newOutput_def initialState_def
  postIncrement_def counterLimit_def

lemma run_exampleEvents: "run exampleEvents = exampleState"
  by (simp add: run_def exampleEvents_def exampleState_def exampleJob_def handler_defs Let_def)

lemma run_snoc: "run (es @ [e]) = step e (run es)"
  by (simp add: run_def)

lemma reachable_run: "reachable (run es)"
  by (induction es rule: rev_induct)
     (simp_all add: run_snoc reachable_step, simp add: run_def reachable_init)

section \<open>A run that uses up the counter\<close>






section \<open>The counter stays in its range\<close>

lemma reachable_nextId:
  "reachable s \<Longrightarrow> 0 \<le> nextId s \<and> nextId s \<le> counterLimit"
proof (induction rule: reachable.induct)
  case reachable_init
  show ?case by (simp add: initialState_def counterLimit_def)
next
  case (reachable_step s e)
  have inc: "0 \<le> (postIncrement ^^ k) (nextId s) \<and> (postIncrement ^^ k) (nextId s) \<le> counterLimit"
    for k
    using reachable_step.IH by (simp add: funpow_postIncrement)
  show ?case
  proof (cases e)
    case Generate
    then show ?thesis
      using reachable_step.IH handleGenerate_cases [of s] inc by auto
  next
    case SchedulerRun
    then show ?thesis
      using reachable_step.IH schedulerEffect_cases [of s] by (auto simp: dispatchAll_nextId)
  next
    case (Settle j r)
    then show ?thesis using reachable_step.IH by (cases r) simp_all
  next
    case (FileLoaded d)
    then show ?thesis using inc [of 1] by (simp add: handleFileLoaded_def)
  next
    case (AddPrompt a b)
    then show ?thesis using inc [of 1] by (simp add: handleAddPrompt_def)
  qed (use reachable_step.IH in \<open>simp_all add: handleCancel_def handleRegenerate_def Let_def
         handleModeChange_def handleClearUploads_def handleRemoveUpload_def
         handleRemovePrompt_def setVectorPrompt_def\<close>)
qed

section \<open>The dispatch loop on job sets with distinct ids\<close>









section \<open>Cancellation\<close>

text \<open>
  Claim C4. After \<open>handleCancel\<close> the flag \<open>isGenerating\<close> is false and the
  in-flight set is empty; the job set keeps its length and order; every job that was
  \<open>Pending\<close> or \<open>Generating\<close> is the same record with status \<open>Error\<close> and error
  message "Cancelled by user."; every job that was \<open>Complete\<close> or \<open>Error\<close> is
  unchanged.
\<close>

theorem cancel_contract:
  "\<not> isGenerating (handleCancel s) \<and> processingIds (handleCancel s) = [] \<and>
   length (outputs (handleCancel s)) = length (outputs s) \<and>
   (\<forall>i < length (outputs s).
      (status (outputs s ! i) = Pending \<or> status (outputs s ! i) = Generating \<longrightarrow>
         outputs (handleCancel s) ! i
           = (outputs s ! i)\<lparr> status := Error, error := Some ''Cancelled by user.'' \<rparr>) \<and>
      (status (outputs s ! i) = Complete \<or> status (outputs s ! i) = Error \<longrightarrow>
         outputs (handleCancel s) ! i = outputs s ! i))"
  by (simp add: handleCancel_def set_clear_def)

text \<open>
  The contract at a job set with one job of every status.
\<close>

theorem cancel_contract_witness:
  "outputs (handleCancel mixedState) =
     [exampleJob 3 0 Error None (Some ''Cancelled by user.''),
      exampleJob 4 1 Error None (Some ''Cancelled by user.''),
      exampleJob 5 2 Complete (Some ''url'') None,
      exampleJob 6 2 Error None (Some ''quota'')] \<and>
   processingIds (handleCancel mixedState) = [] \<and> \<not> isGenerating (handleCancel mixedState)"
  using cancel_contract [of mixedState]
  by (simp add: mixedState_def exampleState_def exampleJob_def handleCancel_def set_clear_def)

section \<open>Regenerate\<close>

text \<open>
  Claim C8. \<open>handleRegenerate j\<close> leaves the flag \<open>isGenerating\<close> true (it turns it on
  when it was off); a job with id \<open>j\<close> whose status is \<open>Complete\<close> or \<open>Error\<close>
  becomes \<open>Pending\<close> with no result and no error message, its other fields kept; every
  job with another id is unchanged.
\<close>

theorem regenerate_terminal_job:
  "isGenerating (handleRegenerate j s) \<and>
   length (outputs (handleRegenerate j s)) = length (outputs s) \<and>
   (\<forall>i < length (outputs s).
      (id_output (outputs s ! i) = j \<and>
       (status (outputs s ! i) = Complete \<or> status (outputs s ! i) = Error) \<longrightarrow>
         outputs (handleRegenerate j s) ! i
           = (outputs s ! i)\<lparr> status := Pending, imageUrl := None, error := None \<rparr>) \<and>
      (id_output (outputs s ! i) \<noteq> j \<longrightarrow>
         outputs (handleRegenerate j s) ! i = outputs s ! i))"
  by (simp add: handleRegenerate_def Let_def)

text \<open>
  Regenerating the \<open>Complete\<close> job 5 and the \<open>Error\<close> job 6 of the mixed job set,
  with the flag off beforehand.
\<close>

theorem regenerate_terminal_job_witness:
  "\<not> isGenerating mixedState \<and> isGenerating (handleRegenerate 5 mixedState) \<and>
   outputs (handleRegenerate 5 mixedState) =
     [exampleJob 3 0 Pending None None, exampleJob 4 1 Generating None None,
      exampleJob 5 2 Pending None None, exampleJob 6 2 Error None (Some ''quota'')] \<and>
   outputs (handleRegenerate 6 mixedState) =
     [exampleJob 3 0 Pending None None, exampleJob 4 1 Generating None None,
      exampleJob 5 2 Complete (Some ''url'') None, exampleJob 6 2 Pending None None]"
  using regenerate_terminal_job [of 5 mixedState] regenerate_terminal_job [of 6 mixedState]
  by (simp add: mixedState_def exampleState_def exampleJob_def handleRegenerate_def Let_def)

text \<open>
  Claim C10. When no job of the job set has id \<open>j\<close>, \<open>handleRegenerate j\<close> changes
  no job record and nothing else of the state, except that the flag \<open>isGenerating\<close>
  is true afterwards: an unknown id still turns the scheduler on.
\<close>

theorem regenerate_unknown_id:
  assumes "j \<notin> id_output ` set (outputs s)"
  shows "handleRegenerate j s = s\<lparr> isGenerating := True \<rparr>"
proof -
  have "map (\<lambda>out. if id_output out = j
                    then out\<lparr> status := Pending, imageUrl := None, error := None \<rparr>
                    else out) (outputs s) = outputs s"
    using assms by (intro map_idI) auto
  then show ?thesis
    by (cases "isGenerating s") (simp_all add: handleRegenerate_def Let_def)
qed

text \<open>
  Id 99 does not occur in the mixed job set, whose flag is off.
\<close>

theorem regenerate_unknown_id_witness:
  "99 \<notin> id_output ` set (outputs mixedState) \<and> \<not> isGenerating mixedState \<and>
   outputs (handleRegenerate 99 mixedState) = outputs mixedState \<and>
   isGenerating (handleRegenerate 99 mixedState)"
proof -
  have h: "99 \<notin> id_output ` set (outputs mixedState)"
    by (simp add: mixedState_def exampleJob_def)
  show ?thesis
    using h regenerate_unknown_id [OF h] by (simp add: mixedState_def)
qed

section \<open>Termination of the scheduler loop\<close>

lemma hasPending_iff: "hasPending s = (\<exists>out \<in> set (outputs s). status out = Pending)"
  by (simp add: hasPending_def list_ex_iff)

text \<open>
  Claim C9. A run of the scheduler effect with the flag on turns the flag off exactly
  when nothing is admitted, the in-flight set is empty and no job is \<open>Pending\<close>; in
  every other case the flag stays on.
\<close>

theorem scheduler_termination_condition:
  assumes "isGenerating s"
  shows "(\<not> isGenerating (schedulerEffect s)) =
           (itemsToProcess s = [] \<and> processingIds s = [] \<and>
            \<not> (\<exists>out \<in> set (outputs s). status out = Pending))"
  using assms
  by (auto simp: schedulerEffect_def dispatchAll_isGenerating hasPending_iff set_size_def)

text \<open>
  The drained job set turns the flag off; the example state, with two jobs in flight,
  keeps it on.
\<close>

theorem scheduler_termination_condition_witness:
  "isGenerating drainedState \<and> \<not> isGenerating (schedulerEffect drainedState) \<and>
   isGenerating exampleState \<and> isGenerating (schedulerEffect exampleState)"
proof -
  have d: "isGenerating drainedState" by (simp add: drainedState_def exampleState_def)
  have e: "isGenerating exampleState" by (simp add: exampleState_def)
  have "itemsToProcess drainedState = [] \<and> processingIds drainedState = [] \<and>
        \<not> (\<exists>out \<in> set (outputs drainedState). status out = Pending)"
    by (simp add: drainedState_def exampleState_def exampleJob_def itemsToProcess_def
          pendingOutputs_def slice0_def)
  moreover have "processingIds exampleState \<noteq> []" by (simp add: exampleState_def)
  ultimately show ?thesis
    using d e scheduler_termination_condition [OF d] scheduler_termination_condition [OF e]
    by simp
qed

section \<open>Admission control\<close>

lemma run_startedEvents: "run startedEvents = startedState"
  by (simp add: run_def startedEvents_def startedState_def exampleState_def exampleJob_def
        handler_defs Let_def)

lemma reachable_availableSlots: "reachable s \<Longrightarrow> 0 \<le> availableSlots s"
  using reachable_length_processingIds [of s]
  by (simp add: availableSlots_def API_CONCURRENCY_LIMIT_def set_size_def)

text \<open>
  Claim C3. In every reachable state the in-flight set holds at most
  \<open>API_CONCURRENCY_LIMIT\<close> (two) ids; a scheduler re-evaluation admits at most the
  limit minus the size of the in-flight set; and the bound also holds after each
  prefix of the admitted jobs has been dispatched, that is at every instant inside the
  \<open>forEach\<close> loop.
\<close>

theorem inflight_bounded:
  assumes "reachable s"
  shows "set_size (processingIds s) \<le> API_CONCURRENCY_LIMIT \<and>
         int (length (itemsToProcess s)) \<le> API_CONCURRENCY_LIMIT - set_size (processingIds s) \<and>
         (\<forall>k. set_size (processingIds (dispatchAll (take k (itemsToProcess s)) s))
                 \<le> API_CONCURRENCY_LIMIT)"
proof -
  have bound: "length (processingIds s) \<le> 2"
    using assms by (rule reachable_length_processingIds)
  have admitted: "int (length (itemsToProcess s)) \<le> availableSlots s"
    using bound by (rule length_itemsToProcess)
  have "length (processingIds (dispatchAll (take k (itemsToProcess s)) s)) \<le> 2" for k
  proof -
    have "length (processingIds (dispatchAll (take k (itemsToProcess s)) s))
            \<le> length (processingIds s) + length (take k (itemsToProcess s))"
      by (rule dispatchAll_length_processingIds)
    also have "\<dots> \<le> length (processingIds s) + length (itemsToProcess s)"
      by simp
    also have "\<dots> \<le> 2"
      using admitted by (simp add: availableSlots_def API_CONCURRENCY_LIMIT_def set_size_def)
    finally show ?thesis .
  qed
  with bound admitted show ?thesis
    by (simp add: availableSlots_def API_CONCURRENCY_LIMIT_def set_size_def)
qed

text \<open>
  Before the first scheduler run of the example nothing is in flight, two of the three
  waiting jobs are admitted, and the in-flight set is full afterwards.
\<close>

theorem inflight_bounded_witness:
  "reachable (run startedEvents) \<and>
   set_size (processingIds (run startedEvents)) = 0 \<and>
   length (itemsToProcess (run startedEvents)) = 2 \<and>
   set_size (processingIds (schedulerEffect (run startedEvents))) = 2 \<and>
   set_size (processingIds (run startedEvents)) \<le> API_CONCURRENCY_LIMIT \<and>
   int (length (itemsToProcess (run startedEvents)))
     \<le> API_CONCURRENCY_LIMIT - set_size (processingIds (run startedEvents))"
  using reachable_run [of startedEvents] inflight_bounded [OF reachable_run, of startedEvents]
  by (simp add: run_startedEvents startedState_def exampleState_def exampleJob_def handler_defs
        Let_def)





section \<open>Regenerate on a job that has not settled\<close>

text \<open>
  Claim C2 as stated fails: \<open>handleRegenerate\<close> has no status check, so the
  \<open>Generating\<close> job 3 of the example run is put back to \<open>Pending\<close>.
\<close>

theorem regenerate_generating_counterexample:
  "reachable (run exampleEvents) \<and>
   id_output (outputs (run exampleEvents) ! 0) = 3 \<and>
   status (outputs (run exampleEvents) ! 0) = Generating \<and>
   status (outputs (handleRegenerate 3 (run exampleEvents)) ! 0) = Pending \<and>
   outputs (handleRegenerate 3 (run exampleEvents)) ! 0 \<noteq> outputs (run exampleEvents) ! 0"
  using reachable_run [of exampleEvents]
  by (simp add: run_exampleEvents exampleState_def exampleJob_def handleRegenerate_def Let_def)

text \<open>
  Claim C2, amended. In every reachable state, \<open>handleRegenerate j\<close> leaves a
  \<open>Pending\<close> job with id \<open>j\<close> unchanged, and puts a \<open>Generating\<close> job with id
  \<open>j\<close> back to \<open>Pending\<close> with no result and no error message.
\<close>

theorem regenerate_nonterminal_job:
  assumes "reachable s"
  shows "\<forall>i < length (outputs s). id_output (outputs s ! i) = j \<longrightarrow>
           (status (outputs s ! i) = Pending \<longrightarrow>
              outputs (handleRegenerate j s) ! i = outputs s ! i) \<and>
           (status (outputs s ! i) = Generating \<longrightarrow>
              outputs (handleRegenerate j s) ! i
                = (outputs s ! i)\<lparr> status := Pending, imageUrl := None, error := None \<rparr>)"
proof (intro allI impI)
  fix i
  assume i: "i < length (outputs s)" and j: "id_output (outputs s ! i) = j"
  let ?out = "outputs s ! i"
  have upd: "outputs (handleRegenerate j s) ! i
               = ?out\<lparr> status := Pending, imageUrl := None, error := None \<rparr>"
    using i j by (simp add: handleRegenerate_def Let_def)
  have "?out\<lparr> status := Pending, imageUrl := None, error := None \<rparr> = ?out"
    if "status ?out = Pending"
  proof -
    have "?out \<in> set (outputs s)" using i by simp
    with reachable_pendingFresh [OF assms] that
    have "imageUrl ?out = None \<and> error ?out = None"
      by (simp add: pendingFresh_def list_all_iff)
    with that show ?thesis by simp
  qed
  with upd show "(status ?out = Pending \<longrightarrow> outputs (handleRegenerate j s) ! i = ?out) \<and>
                 (status ?out = Generating \<longrightarrow> outputs (handleRegenerate j s) ! i
                    = ?out\<lparr> status := Pending, imageUrl := None, error := None \<rparr>)"
    by simp
qed

text \<open>
  In the example run job 5 is \<open>Pending\<close> and stays as it is, job 3 is
  \<open>Generating\<close> and becomes \<open>Pending\<close>.
\<close>

theorem regenerate_nonterminal_job_witness:
  "reachable (run exampleEvents) \<and>
   outputs (run exampleEvents) =
     [exampleJob 3 0 Generating None None, exampleJob 4 1 Generating None None,
      exampleJob 5 2 Pending None None] \<and>
   outputs (handleRegenerate 5 (run exampleEvents)) = outputs (run exampleEvents) \<and>
   outputs (handleRegenerate 3 (run exampleEvents)) =
     [exampleJob 3 0 Pending None None, exampleJob 4 1 Generating None None,
      exampleJob 5 2 Pending None None]"
  using reachable_run [of exampleEvents]
        regenerate_nonterminal_job [OF reachable_run, of exampleEvents 5]
        regenerate_nonterminal_job [OF reachable_run, of exampleEvents 3]
  by (simp add: run_exampleEvents exampleState_def exampleJob_def handleRegenerate_def Let_def)

section \<open>Settlement after cancellation\<close>

text \<open>
  Claim C1 holds for a call that resolves and fails for a call that rejects. In the
  example run job 3 is in flight when the user cancels, which sets its error message to
  "Cancelled by user.". A later success is discarded by the status test of the \<open>try\<close>
  branch; a later failure is not, because the \<open>catch\<close> branch has no status test: it
  overwrites the error message of the cancelled job.
\<close>

theorem failed_settlement_after_cancel:
  "outputs (run (exampleEvents @ [Cancel])) ! 0
     = exampleJob 3 0 Error None (Some ''Cancelled by user.'') \<and>
   outputs (run (exampleEvents @ [Cancel, Settle 3 (Resolved ''url'')])) ! 0
     = exampleJob 3 0 Error None (Some ''Cancelled by user.'') \<and>
   outputs (run (exampleEvents @ [Cancel, Settle 3 (Rejected ''Network error'')])) ! 0
     = exampleJob 3 0 Error None (Some ''Network error'')"
proof -
  have "run (exampleEvents @ es) = foldl (\<lambda>s e. step e s) exampleState es" for es
    using run_exampleEvents by (simp add: run_def)
  then show ?thesis
    by (simp add: exampleState_def exampleJob_def handleCancel_def set_clear_def set_delete_def)
qed

section \<open>Building the job matrix\<close>






section \<open>Generate with the precondition violated\<close>

text \<open>
  Claim C7 as stated fails: with zero images (and no generation running)
  \<open>handleGenerate\<close> returns before it reaches the \<open>alert\<close>, so nothing is reported
  to the caller.
\<close>

theorem generate_without_images_counterexample:
  "uploadedImages initialState = [] \<and> \<not> isGenerating initialState \<and>
   handleGenerate initialState = (None, initialState)"
  by (simp add: handleGenerate_def initialState_def)

text \<open>
  Claim C7, amended. When there is no image, or vector mode has an empty trimmed text,
  or matrix mode has no prompt, \<open>handleGenerate\<close> leaves the whole state as it is:
  no job is created, the job set is unchanged and the flag keeps its value (false when
  it was false). When moreover at least one image is present and no generation is
  running, the validation message is reported to the caller.
\<close>

theorem generate_precondition_violated:
  assumes "uploadedImages s = [] \<or>
           (currentMode s = Vector \<and> trim (vectorPrompt s) = []) \<or>
           (currentMode s = Matrix \<and> prompts s = [])"
  shows "snd (handleGenerate s) = s \<and>
         (\<not> isGenerating s \<and> uploadedImages s \<noteq> [] \<longrightarrow>
            fst (handleGenerate s) = Some ''Please add at least one image and one prompt.'')"
  using assms by (cases "currentMode s") (auto simp: handleGenerate_def Let_def)

text \<open>
  Matrix mode with two images and no prompt reports the message, and so does vector
  mode with three images and a text of a space and a tab; the initial state, without
  images, is left unchanged.
\<close>

theorem generate_precondition_violated_witness:
  "currentMode (matrixState\<lparr> prompts := [] \<rparr>) = Matrix \<and>
   prompts (matrixState\<lparr> prompts := [] \<rparr>) = [] \<and>
   uploadedImages (matrixState\<lparr> prompts := [] \<rparr>) \<noteq> [] \<and>
   \<not> isGenerating (matrixState\<lparr> prompts := [] \<rparr>) \<and>
   handleGenerate (matrixState\<lparr> prompts := [] \<rparr>)
     = (Some ''Please add at least one image and one prompt.'', matrixState\<lparr> prompts := [] \<rparr>) \<and>
   trim (vectorPrompt (startedState\<lparr> vectorPrompt := [CHR 0x20, CHR 0x09], isGenerating := False \<rparr>)) = [] \<and>
   fst (handleGenerate (startedState\<lparr> vectorPrompt := [CHR 0x20, CHR 0x09], isGenerating := False \<rparr>))
     = Some ''Please add at least one image and one prompt.'' \<and>
   uploadedImages initialState = [] \<and> snd (handleGenerate initialState) = initialState"
proof -
  let ?blank = "startedState\<lparr> vectorPrompt := [CHR 0x20, CHR 0x09], isGenerating := False \<rparr>"
  have b: "uploadedImages ?blank = [] \<or>
           (currentMode ?blank = Vector \<and> trim (vectorPrompt ?blank) = []) \<or>
           (currentMode ?blank = Matrix \<and> prompts ?blank = [])"
    by (simp add: startedState_def exampleState_def trim_def isWhiteSpace_def)
  have h: "uploadedImages (matrixState\<lparr> prompts := [] \<rparr>) = [] \<or>
           (currentMode (matrixState\<lparr> prompts := [] \<rparr>) = Vector \<and>
            trim (vectorPrompt (matrixState\<lparr> prompts := [] \<rparr>)) = []) \<or>
           (currentMode (matrixState\<lparr> prompts := [] \<rparr>) = Matrix \<and>
            prompts (matrixState\<lparr> prompts := [] \<rparr>) = [])"
    by (simp add: matrixState_def)
  have i: "uploadedImages initialState = [] \<or>
           (currentMode initialState = Vector \<and> trim (vectorPrompt initialState) = []) \<or>
           (currentMode initialState = Matrix \<and> prompts initialState = [])"
    by (simp add: initialState_def)
  show ?thesis
    using generate_precondition_violated [OF h] generate_precondition_violated [OF i]
          generate_precondition_violated [OF b]
    by (simp add: matrixState_def initialState_def startedState_def exampleState_def
          trim_def isWhiteSpace_def prod_eq_iff)
qed

end
